theory Spec2Isabelle
  imports Main
begin

section \<open>Python strings\<close>

text \<open>
  A Python \<open>str\<close> is a sequence of code points. It is modelled as a \<open>string\<close> with one
  \<open>char\<close> per code point, which covers the documents and term names whose code points
  lie in U+0000..U+00FF. The newline is \<open>CHR ''\<newline>''\<close>.
\<close>

text \<open>\<open>str.isspace\<close> on one code point below U+0100: the controls 0x09..0x0D and
  0x1C..0x1F, the space, NEL (0x85) and the no-break space (0xA0).\<close>

definition py_isspace :: "char \<Rightarrow> bool" where
  "py_isspace c =
     (let n = (of_char c :: nat)
      in (9 \<le> n \<and> n \<le> 13) \<or> (28 \<le> n \<and> n \<le> 32) \<or> n = 133 \<or> n = 160)"

text \<open>\<open>s.strip()\<close>: leading and trailing white space removed.\<close>

definition py_strip :: "string \<Rightarrow> string" where
  "py_strip s = rev (dropWhile py_isspace (rev (dropWhile py_isspace s)))"

text \<open>\<open>s.lower()\<close> below U+0100: A..Z and the capital letters 0xC0..0xDE (but the
  multiplication sign 0xD7) move up by 0x20.\<close>

definition py_lower_char :: "char \<Rightarrow> char" where
  "py_lower_char c =
     (let n = (of_char c :: nat)
      in if (65 \<le> n \<and> n \<le> 90) \<or> (192 \<le> n \<and> n \<le> 222 \<and> n \<noteq> 215)
         then char_of (n + 32) else c)"

definition py_lower :: "string \<Rightarrow> string" where
  "py_lower s = map py_lower_char s"

text \<open>\<open>s.split(sep)\<close> for a separator of one character: the pieces between the
  separators, so \<open>''''\<close> splits into one empty piece.\<close>

fun py_split :: "char \<Rightarrow> string \<Rightarrow> string list" where
  "py_split sep [] = [[]]"
| "py_split sep (c # cs) =
     (if c = sep then [] # py_split sep cs
      else (case py_split sep cs of
              [] \<Rightarrow> [[c]]
            | w # ws \<Rightarrow> (c # w) # ws))"

text \<open>\<open>s.startswith(p)\<close> and \<open>sub in s\<close>.\<close>

definition py_startswith :: "string \<Rightarrow> string \<Rightarrow> bool" where
  "py_startswith p s = (take (length p) s = p)"

fun py_in :: "string \<Rightarrow> string \<Rightarrow> bool" where
  "py_in sub [] = (sub = [])"
| "py_in sub (c # cs) = (py_startswith sub (c # cs) \<or> py_in sub cs)"

text \<open>\<open>s.replace(old, new)\<close> for an \<open>old\<close> of one character.\<close>

definition py_replace :: "char \<Rightarrow> string \<Rightarrow> string \<Rightarrow> string" where
  "py_replace old new s = concat (map (\<lambda>c. if c = old then new else [c]) s)"

section \<open>The three regular expressions of \<open>parse_markdown\<close>\<close>

text \<open>\<open>.+\<close> is greedy and \<open>.\<close> matches every character but the newline: at a
  position it takes the rest of the line, and fails when that is empty.\<close>

definition dot_plus :: "string \<Rightarrow> string" where
  "dot_plus s = takeWhile (\<lambda>c. c \<noteq> CHR ''\<newline>'') s"

text \<open>The pattern \<open>key(.+)\<close> tried at the start of \<open>s\<close>; the result is group 1.\<close>

definition re_match :: "string \<Rightarrow> string \<Rightarrow> string option" where
  "re_match key s =
     (if py_startswith key s \<and> dot_plus (drop (length key) s) \<noteq> []
      then Some (dot_plus (drop (length key) s)) else None)"

text \<open>\<open>re.search(r'key(.+)', text)\<close>: the leftmost position where the pattern matches,
  wherever it stands in its line.\<close>

fun re_search :: "string \<Rightarrow> string \<Rightarrow> string option" where
  "re_search key [] = re_match key []"
| "re_search key (c # cs) =
     (case re_match key (c # cs) of
        Some g \<Rightarrow> Some g
      | None \<Rightarrow> re_search key cs)"

text \<open>\<open>re.search(r'^key(.+)', text, re.MULTILINE)\<close>: as above, but \<open>^\<close> lets the pattern
  start only at the start of the text or right after a newline. \<open>bol\<close> tells whether
  the current position is one.\<close>

fun re_search_bol :: "bool \<Rightarrow> string \<Rightarrow> string \<Rightarrow> string option" where
  "re_search_bol bol key [] = (if bol then re_match key [] else None)"
| "re_search_bol bol key (c # cs) =
     (case (if bol then re_match key (c # cs) else None) of
        Some g \<Rightarrow> Some g
      | None \<Rightarrow> re_search_bol (c = CHR ''\<newline>'') key cs)"

definition re_search_multiline :: "string \<Rightarrow> string \<Rightarrow> string option" where
  "re_search_multiline key text = re_search_bol True key text"

text \<open>\<open>re.sub(r'^# .+\n', '', text, count=1)\<close>. No flag is given, so \<open>^\<close> stands for the
  start of the text only: the text loses its first line when that line is \<open># \<close>, at
  least one more character and a newline, and is unchanged otherwise.\<close>

definition re_sub_title :: "string \<Rightarrow> string" where
  "re_sub_title text =
     (if py_startswith ''# '' text \<and> dot_plus (drop 2 text) \<noteq> []
         \<and> dropWhile (\<lambda>c. c \<noteq> CHR ''\<newline>'') (drop 2 text) \<noteq> []
      then tl (dropWhile (\<lambda>c. c \<noteq> CHR ''\<newline>'') (drop 2 text))
      else text)"

section \<open>\<open>parse_markdown\<close>\<close>

text \<open>
  \<open>parse_markdown\<close> is modelled on the text that \<open>f.read()\<close> returns; opening the file
  is a step of \<open>post_to_wordpress\<close> below, where it can fail. The parts of the function
  are defined one by one, in the order of the source, and put together at the end.
\<close>

text \<open>The body of the loop \<open>for line_ in lines\<close>, with its five branches in their
  order; the state is \<open>(content_, excerpt, excerpt_flag)\<close>.\<close>

type_synonym scan_state = "string \<times> string \<times> nat"

fun scan_line :: "scan_state \<Rightarrow> string \<Rightarrow> scan_state" where
  "scan_line (content, excerpt, excerpt_flag) line =
     (if py_startswith ''Categories: '' line then (content, excerpt, excerpt_flag)
      else if py_startswith ''Tags: '' line then (content, excerpt, excerpt_flag)
      else if py_in ''## Excerpt'' line then (content, excerpt, 1)
      else if excerpt_flag = 0 then (content @ line @ ''\<newline>'', excerpt, excerpt_flag)
      else (content, excerpt @ line @ ''\<newline>'', excerpt_flag))"

text \<open>The loop, from \<open>content_ = ""\<close>, \<open>excerpt = ""\<close>, \<open>excerpt_flag = 0\<close>.\<close>

definition scan_lines :: "string list \<Rightarrow> scan_state" where
  "scan_lines lines = foldl scan_line ('''', '''', 0) lines"

text \<open>\<open>content_md = re.sub(r'^# .+\n', '', text, count=1).strip()\<close> and
  \<open>lines = content_md.split('\n')\<close>.\<close>

definition content_md :: "string \<Rightarrow> string" where
  "content_md text = py_strip (re_sub_title text)"

definition content_lines :: "string \<Rightarrow> string list" where
  "content_lines text = py_split CHR ''\<newline>'' (content_md text)"

text \<open>The body (\<open>content_\<close>) and the excerpt when the loop ends.\<close>

definition body_of :: "string \<Rightarrow> string" where
  "body_of text = fst (scan_lines (content_lines text))"

definition excerpt_of :: "string \<Rightarrow> string" where
  "excerpt_of text = fst (snd (scan_lines (content_lines text)))"

text \<open>\<open>title = title_match.group(1) if title_match else "No title"\<close>\<close>

definition title_of :: "string \<Rightarrow> string" where
  "title_of text =
     (case re_search_multiline ''# '' text of Some g \<Rightarrow> g | None \<Rightarrow> ''No title'')"

text \<open>\<open>[c.strip().lower() for c in m.group(1).split(",")] if m else []\<close>\<close>

definition names_of :: "string option \<Rightarrow> string list" where
  "names_of m =
     (case m of
        Some g \<Rightarrow> map (\<lambda>c. py_lower (py_strip c)) (py_split CHR '','' g)
      | None \<Rightarrow> [])"

definition categories_of :: "string \<Rightarrow> string list" where
  "categories_of text = names_of (re_search ''Categories: '' text)"

definition tags_of :: "string \<Rightarrow> string list" where
  "tags_of text = names_of (re_search ''Tags: '' text)"

text \<open>\<open>markdown.markdown\<close> with the extensions \<open>fenced_code\<close> and \<open>codehilite\<close> is the
  Python-Markdown library, which is no part of the repository: the renderer is a
  parameter. The result is the tuple the function returns, in its order:
  title, categories, tags, excerpt, content_html.\<close>

definition parse_markdown ::
  "(string \<Rightarrow> string) \<Rightarrow> string \<Rightarrow> string \<times> string list \<times> string list \<times> string \<times> string" where
  "parse_markdown markdown text =
     (title_of text, categories_of text, tags_of text, excerpt_of text,
      markdown (body_of text))"

section \<open>The remote system and \<open>post_to_wordpress\<close>\<close>

text \<open>The configuration read from the environment: \<open>WP_URL\<close>, \<open>WP_USER\<close>, \<open>WP_PASS\<close>.\<close>

record config =
  wp_url :: string
  wp_user :: string
  wp_pass :: string

text \<open>The dictionary \<open>data\<close> that is posted, with its six keys.\<close>

record post_data =
  data_title :: string
  data_status :: string
  data_content :: string
  data_categories :: "int list"
  data_excerpt :: string
  data_tags :: "int list"

text \<open>The requests the program sends: the token request (URL, username, password), a
  term listing (URL) and the post creation (URL, \<open>Authorization\<close> header, data).\<close>

datatype request =
    TokenRequest string string string
  | TermsRequest string
  | PostRequest string string post_data

text \<open>What the remote system answers: a status code with, for the token request, the
  field \<open>token\<close> of the body when it has one; for a term listing (by URL), the
  \<open>name\<close> and \<open>id\<close> of each item; for the post creation, the field \<open>link\<close> when the
  body has one. The file system gives the text of a file, when it can be read. Every
  request gets an answer with a status: a transport failure, a body that is no JSON
  and a term without \<open>name\<close> or \<open>id\<close> are left out, and so is a missing environment
  variable, which ends the program before \<open>post_to_wordpress\<close> is called.\<close>

record remote =
  token_response :: "nat \<times> string option"
  terms_response :: "string \<Rightarrow> nat \<times> (string \<times> int) list"
  post_response :: "nat \<times> string option"

datatype error = HTTPError nat | KeyError string | OSError string

text \<open>\<open>raise_for_status\<close> raises for the client and server error codes.\<close>

definition raise_for_status :: "nat \<Rightarrow> bool" where
  "raise_for_status st = (400 \<le> st \<and> st < 600)"

definition token_url :: "config \<Rightarrow> string" where
  "token_url cfg = wp_url cfg @ ''/wp-json/jwt-auth/v1/token''"

definition terms_url :: "config \<Rightarrow> string \<Rightarrow> string" where
  "terms_url cfg term_type = wp_url cfg @ ''/wp-json/wp/v2/'' @ term_type @ ''?per_page=100''"

definition posts_url :: "config \<Rightarrow> string" where
  "posts_url cfg = wp_url cfg @ ''/wp-json/wp/v2/posts''"

text \<open>Every function that talks to the remote system takes the requests sent so far
  and returns them with its own request appended.\<close>

definition get_jwt_token ::
  "config \<Rightarrow> remote \<Rightarrow> request list \<Rightarrow> (error + string) \<times> request list" where
  "get_jwt_token cfg rem sent =
     (let sent' = sent @ [TokenRequest (token_url cfg) (wp_user cfg) (wp_pass cfg)]
      in case token_response rem of
           (st, body) \<Rightarrow>
             if raise_for_status st then (Inl (HTTPError st), sent')
             else (case body of
                     None \<Rightarrow> (Inl (KeyError ''token''), sent')
                   | Some token \<Rightarrow> (Inr token, sent')))"

text \<open>\<open>{item["name"].lower(): item["id"] for item in r.json()}\<close>: a later item
  replaces an earlier one of the same lowercased name.\<close>

definition term_map :: "(string \<times> int) list \<Rightarrow> (string \<rightharpoonup> int)" where
  "term_map items = foldl (\<lambda>m item. m(py_lower (fst item) \<mapsto> snd item)) Map.empty items"

definition fetch_terms ::
  "config \<Rightarrow> remote \<Rightarrow> string \<Rightarrow> request list \<Rightarrow> (error + (string \<rightharpoonup> int)) \<times> request list" where
  "fetch_terms cfg rem term_type sent =
     (let url = terms_url cfg term_type;
          sent' = sent @ [TermsRequest url]
      in case terms_response rem url of
           (st, items) \<Rightarrow>
             if raise_for_status st then (Inl (HTTPError st), sent')
             else (Inr (term_map items), sent'))"

text \<open>The two loops that build \<open>modified_categories\<close> and \<open>modified_tags\<close>.\<close>

definition modified :: "string list \<Rightarrow> string list" where
  "modified names = map (\<lambda>item. py_replace CHR ''&'' ''&amp;'' item) names"

text \<open>\<open>[m.get(c) for c in names if c in m]\<close>\<close>

definition ids_of :: "(string \<rightharpoonup> int) \<Rightarrow> string list \<Rightarrow> int list" where
  "ids_of m names = [the (m c). c \<leftarrow> names, m c \<noteq> None]"

definition post_data_of ::
  "(string \<rightharpoonup> int) \<Rightarrow> (string \<rightharpoonup> int) \<Rightarrow>
   string \<times> string list \<times> string list \<times> string \<times> string \<Rightarrow> post_data" where
  "post_data_of category_map tag_map parsed =
     (case parsed of
        (title, categories, tags, excerpt, content_html) \<Rightarrow>
          \<lparr>data_title = title,
           data_status = ''publish'',
           data_content = content_html,
           data_categories = ids_of category_map (modified categories),
           data_excerpt = excerpt,
           data_tags = ids_of tag_map (modified tags)\<rparr>)"

text \<open>The run: the result is the link that is printed, or the error that ends the run,
  together with the requests that were sent, in their order.\<close>

definition post_to_wordpress ::
  "config \<Rightarrow> remote \<Rightarrow> (string \<rightharpoonup> string) \<Rightarrow> (string \<Rightarrow> string) \<Rightarrow> string
   \<Rightarrow> (error + string) \<times> request list" where
  "post_to_wordpress cfg rem files markdown file_path =
     (case get_jwt_token cfg rem [] of
        (Inl e, sent1) \<Rightarrow> (Inl e, sent1)
      | (Inr token, sent1) \<Rightarrow>
     (case fetch_terms cfg rem ''categories'' sent1 of
        (Inl e, sent2) \<Rightarrow> (Inl e, sent2)
      | (Inr category_map, sent2) \<Rightarrow>
     (case fetch_terms cfg rem ''tags'' sent2 of
        (Inl e, sent3) \<Rightarrow> (Inl e, sent3)
      | (Inr tag_map, sent3) \<Rightarrow>
     (case files file_path of
        None \<Rightarrow> (Inl (OSError file_path), sent3)
      | Some text \<Rightarrow>
          (let data = post_data_of category_map tag_map (parse_markdown markdown text);
               sent4 = sent3 @ [PostRequest (posts_url cfg) (''Bearer '' @ token) data]
           in case post_response rem of
                (st, body) \<Rightarrow>
                  if raise_for_status st then (Inl (HTTPError st), sent4)
                  else (case body of
                          None \<Rightarrow> (Inl (KeyError ''link''), sent4)
                        | Some link \<Rightarrow> (Inr link, sent4)))))))"

section \<open>Words for the statements about the scan\<close>

text \<open>A line that the loop skips by its first two tests, and a line that sets
  \<open>excerpt_flag\<close> (it reaches the third test and holds the marker).\<close>

definition is_metadata_line :: "string \<Rightarrow> bool" where
  "is_metadata_line l = (py_startswith ''Categories: '' l \<or> py_startswith ''Tags: '' l)"

definition is_marker_line :: "string \<Rightarrow> bool" where
  "is_marker_line l = (\<not> is_metadata_line l \<and> py_in ''## Excerpt'' l)"

text \<open>The lines as the loop appends them: each followed by a newline.\<close>

definition joined :: "string list \<Rightarrow> string" where
  "joined ls = concat (map (\<lambda>l. l @ ''\<newline>'') ls)"


section \<open>The scenario document\<close>

lemma scenario_title:
  "title_of ''# Hello\<newline>Categories: news\<newline>Tags: go, rust\<newline>Body text\<newline>## Excerpt\<newline>Short.\<newline>''
     = ''Hello''"
  by code_simp

lemma scenario_categories:
  "categories_of ''# Hello\<newline>Categories: news\<newline>Tags: go, rust\<newline>Body text\<newline>## Excerpt\<newline>Short.\<newline>''
     = [''news'']"
  by code_simp

lemma scenario_tags:
  "tags_of ''# Hello\<newline>Categories: news\<newline>Tags: go, rust\<newline>Body text\<newline>## Excerpt\<newline>Short.\<newline>''
     = [''go'', ''rust'']"
  by code_simp

lemma scenario_body:
  "body_of ''# Hello\<newline>Categories: news\<newline>Tags: go, rust\<newline>Body text\<newline>## Excerpt\<newline>Short.\<newline>''
     = ''Body text\<newline>''"
  by code_simp

lemma scenario_excerpt:
  "excerpt_of ''# Hello\<newline>Categories: news\<newline>Tags: go, rust\<newline>Body text\<newline>## Excerpt\<newline>Short.\<newline>''
     = ''Short.\<newline>''"
  by code_simp

text \<open>
  Claim C1. For the scenario document and the remote maps \<open>{news: 1}\<close> (categories) and
  \<open>{go: 2}\<close> (tags), the data that is posted has the title \<open>Hello\<close>, the categories
  \<open>[1]\<close>, the tags \<open>[2]\<close> (the name \<open>rust\<close> is in no map and gives no identifier), the
  excerpt \<open>Short.\<close> with its newline, and as content what the renderer makes of the body
  \<open>Body text\<close> with its newline, which is \<open><p>Body text</p>\<close> for Python-Markdown.
\<close>

theorem scenario_payload:
  assumes "markdown ''Body text\<newline>'' = ''<p>Body text</p>''"
  shows "post_data_of [''news'' \<mapsto> 1] [''go'' \<mapsto> 2]
           (parse_markdown markdown
              ''# Hello\<newline>Categories: news\<newline>Tags: go, rust\<newline>Body text\<newline>## Excerpt\<newline>Short.\<newline>'')
         = \<lparr>data_title = ''Hello'', data_status = ''publish'',
            data_content = ''<p>Body text</p>'', data_categories = [1],
            data_excerpt = ''Short.\<newline>'', data_tags = [2]\<rparr>"
  using assms
  by (simp add: post_data_of_def parse_markdown_def scenario_title scenario_categories
      scenario_tags scenario_body scenario_excerpt ids_of_def modified_def py_replace_def)

theorem scenario_payload_witness:
  "post_data_of [''news'' \<mapsto> 1] [''go'' \<mapsto> 2]
     (parse_markdown (\<lambda>s. ''<p>'' @ py_strip s @ ''</p>'')
        ''# Hello\<newline>Categories: news\<newline>Tags: go, rust\<newline>Body text\<newline>## Excerpt\<newline>Short.\<newline>'')
   = \<lparr>data_title = ''Hello'', data_status = ''publish'',
      data_content = ''<p>Body text</p>'', data_categories = [1],
      data_excerpt = ''Short.\<newline>'', data_tags = [2]\<rparr>"
proof -
  have "(\<lambda>s. ''<p>'' @ py_strip s @ ''</p>'') ''Body text\<newline>'' = ''<p>Body text</p>''"
    by code_simp
  then show ?thesis by (rule scenario_payload)
qed

section \<open>The title line\<close>

text \<open>When the document starts with its title line, \<open>re.sub\<close> removes that line.\<close>

lemma re_sub_title_first_line:
  assumes "t \<noteq> []" and "CHR ''\<newline>'' \<notin> set t"
  shows "re_sub_title (''# '' @ t @ CHR ''\<newline>'' # rest) = rest"
proof -
  have "takeWhile (\<lambda>c. c \<noteq> CHR ''\<newline>'') (t @ CHR ''\<newline>'' # rest) = t"
    using assms(2) by (induction t) auto
  moreover have "dropWhile (\<lambda>c. c \<noteq> CHR ''\<newline>'') (t @ CHR ''\<newline>'' # rest) = CHR ''\<newline>'' # rest"
    using assms(2) by (induction t) auto
  ultimately show ?thesis
    using assms(1) by (simp add: re_sub_title_def py_startswith_def dot_plus_def)
qed

text \<open>
  Claim C2. A document with a title heading line has that line removed from the body
  and the excerpt, wherever the line stands. The code finds the title on any line
  (\<open>re.MULTILINE\<close>) but removes the line only at the very start of the text (\<open>re.sub\<close>
  without the flag): in the document \<open>intro / # Title / body\<close> the title is \<open>Title\<close> and
  the heading line stays in the body.
\<close>

theorem title_line_kept_after_first_line:
  "title_of ''intro\<newline># Title\<newline>body\<newline>'' = ''Title''
   \<and> body_of ''intro\<newline># Title\<newline>body\<newline>'' = ''intro\<newline># Title\<newline>body\<newline>''
   \<and> excerpt_of ''intro\<newline># Title\<newline>body\<newline>'' = ''''"
  by code_simp

section \<open>The scan of the lines\<close>

lemma scan_after_marker:
  "foldl scan_line (b, e, Suc 0) ls =
     (b, e @ joined (filter (\<lambda>l. \<not> is_metadata_line l \<and> \<not> py_in ''## Excerpt'' l) ls), Suc 0)"
  by (induction ls arbitrary: e) (simp_all add: joined_def is_metadata_line_def)

lemma scan_before_marker:
  "foldl scan_line (b, e, 0) ls =
     (b @ joined (filter (\<lambda>l. \<not> is_metadata_line l) (takeWhile (\<lambda>l. \<not> is_marker_line l) ls)),
      e @ joined (filter (\<lambda>l. \<not> is_metadata_line l \<and> \<not> py_in ''## Excerpt'' l)
                    (dropWhile (\<lambda>l. \<not> is_marker_line l) ls)),
      if list_ex is_marker_line ls then 1 else 0)"
proof (induction ls arbitrary: b)
  case Nil
  show ?case by (simp add: joined_def)
next
  case (Cons l ls)
  show ?case
  proof (cases "is_marker_line l")
    case True
    then show ?thesis
      using scan_after_marker [of b e ls]
      by (simp add: is_marker_line_def is_metadata_line_def joined_def)
  next
    case False
    then show ?thesis
      using Cons.IH
      by (auto simp add: is_marker_line_def is_metadata_line_def joined_def)
  qed
qed

text \<open>
  Claim C3, as the code has it. In the scan of the lines of the remaining document,
  exactly the lines that start with \<open>Categories: \<close> or \<open>Tags: \<close> and, of the other lines,
  those that contain \<open>## Excerpt\<close> are dropped. Every other line goes, with a newline
  after it, into the body when it stands before the first marker line, and into the
  excerpt when it stands after it.
\<close>

theorem scan_keeps_all_but_metadata_and_marker_lines:
  "body_of text =
     joined (filter (\<lambda>l. \<not> is_metadata_line l)
               (takeWhile (\<lambda>l. \<not> is_marker_line l) (content_lines text)))
   \<and> excerpt_of text =
     joined (filter (\<lambda>l. \<not> is_metadata_line l \<and> \<not> py_in ''## Excerpt'' l)
               (dropWhile (\<lambda>l. \<not> is_marker_line l) (content_lines text)))"
  by (simp add: body_of_def excerpt_of_def scan_lines_def scan_before_marker)

text \<open>
  Claim C3, as the specification states it, says that only the lines equal to the
  metadata lines (the lines of the first \<open>Categories: ...\<close> and \<open>Tags: ...\<close> matches) and the
  marker lines are dropped. In the document \<open># T / Categories: a / keep / Categories: b\<close>
  the metadata line is \<open>Categories: a\<close> and there is no tags line; the line
  \<open>Categories: b\<close> differs from it and holds no marker, and yet it reaches neither the
  body nor the excerpt.
\<close>

theorem later_categories_line_dropped:
  "content_lines ''# T\<newline>Categories: a\<newline>keep\<newline>Categories: b\<newline>''
     = [''Categories: a'', ''keep'', ''Categories: b'']
   \<and> re_search ''Categories: '' ''# T\<newline>Categories: a\<newline>keep\<newline>Categories: b\<newline>'' = Some ''a''
   \<and> re_search ''Tags: '' ''# T\<newline>Categories: a\<newline>keep\<newline>Categories: b\<newline>'' = None
   \<and> ''Categories: b'' \<noteq> ''Categories: a''
   \<and> \<not> py_in ''## Excerpt'' ''Categories: b''
   \<and> body_of ''# T\<newline>Categories: a\<newline>keep\<newline>Categories: b\<newline>'' = ''keep\<newline>''
   \<and> excerpt_of ''# T\<newline>Categories: a\<newline>keep\<newline>Categories: b\<newline>'' = ''''"
  by code_simp

section \<open>The metadata lines\<close>

lemma py_split_not_Nil: "py_split sep s \<noteq> []"
  by (induction s) (auto split: list.splits)




















section \<open>The identifier lists\<close>

lemma ids_of_Nil: "ids_of m [] = []"
  by (simp add: ids_of_def)

lemma ids_of_Cons:
  "ids_of m (c # cs) = (case m c of None \<Rightarrow> ids_of m cs | Some i \<Rightarrow> i # ids_of m cs)"
  by (simp add: ids_of_def split: option.splits)

lemma ids_of_append: "ids_of m (xs @ ys) = ids_of m xs @ ids_of m ys"
  by (simp add: ids_of_def)

lemma ids_of_ran: "set (ids_of m names) \<subseteq> ran m"
  by (auto simp: ids_of_def ran_def)

lemma ids_of_present: "ids_of m names = ids_of m (filter (\<lambda>c. m c \<noteq> None) names)"
  by (induction names) (simp_all add: ids_of_Nil ids_of_Cons split: option.splits)

lemma ids_of_count:
  "count_list (ids_of m names) i = length (filter (\<lambda>c. m c = Some i) names)"
  by (induction names) (auto simp add: ids_of_Nil ids_of_Cons split: option.splits)

lemma ids_of_replicate: "m c = Some i \<Longrightarrow> ids_of m (replicate n c) = replicate n i"
  by (induction n) (simp_all add: ids_of_Nil ids_of_Cons)

section \<open>The run\<close>

lemma post_data_of_parse:
  "post_data_of cm tm (parse_markdown markdown doc) =
     \<lparr>data_title = title_of doc, data_status = ''publish'',
      data_content = markdown (body_of doc),
      data_categories = ids_of cm (modified (categories_of doc)),
      data_excerpt = excerpt_of doc,
      data_tags = ids_of tm (modified (tags_of doc))\<rparr>"
  by (simp add: post_data_of_def parse_markdown_def)

lemma post_to_wordpress_token_failure:
  assumes "fst (get_jwt_token cfg rem []) = Inl e"
  shows "post_to_wordpress cfg rem files markdown file_path =
           (Inl e, [TokenRequest (token_url cfg) (wp_user cfg) (wp_pass cfg)])"
proof -
  have "snd (get_jwt_token cfg rem []) = [TokenRequest (token_url cfg) (wp_user cfg) (wp_pass cfg)]"
    by (simp add: get_jwt_token_def Let_def split: prod.splits option.splits)
  with assms have "get_jwt_token cfg rem [] =
      (Inl e, [TokenRequest (token_url cfg) (wp_user cfg) (wp_pass cfg)])"
    by (metis prod.collapse)
  then show ?thesis by (simp add: post_to_wordpress_def)
qed

lemma post_to_wordpress_first_request:
  "\<exists>rest. snd (post_to_wordpress cfg rem files markdown file_path) =
      TokenRequest (token_url cfg) (wp_user cfg) (wp_pass cfg) # rest"
  by (simp add: post_to_wordpress_def get_jwt_token_def fetch_terms_def Let_def
      split: prod.splits option.splits sum.splits)

lemma post_to_wordpress_success:
  assumes "token_response rem = (s0, Some token)" and "\<not> raise_for_status s0"
    and "terms_response rem (terms_url cfg ''categories'') = (s1, category_items)"
    and "\<not> raise_for_status s1"
    and "terms_response rem (terms_url cfg ''tags'') = (s2, tag_items)"
    and "\<not> raise_for_status s2"
    and "files file_path = Some doc"
    and "post_response rem = (s3, Some link)" and "\<not> raise_for_status s3"
  shows "post_to_wordpress cfg rem files markdown file_path =
     (Inr link,
      [TokenRequest (token_url cfg) (wp_user cfg) (wp_pass cfg),
       TermsRequest (terms_url cfg ''categories''),
       TermsRequest (terms_url cfg ''tags''),
       PostRequest (posts_url cfg) (''Bearer '' @ token)
         (post_data_of (term_map category_items) (term_map tag_items)
            (parse_markdown markdown doc))])"
  using assms
  by (simp add: post_to_wordpress_def get_jwt_token_def fetch_terms_def Let_def)

text \<open>
  Claim C5. When the authentication request fails (a status such as 401 for which
  \<open>raise_for_status\<close> raises), the run ends with that HTTP error and the token request
  is the only request sent. In every run the token request is the first request, and
  a further request is sent only when the authentication gave a token.
\<close>

theorem authentication_failure_aborts:
  assumes "token_response rem = (st, body)"
  shows "(raise_for_status st \<longrightarrow>
            post_to_wordpress cfg rem files markdown file_path =
              (Inl (HTTPError st), [TokenRequest (token_url cfg) (wp_user cfg) (wp_pass cfg)]))
       \<and> (\<exists>rest. snd (post_to_wordpress cfg rem files markdown file_path) =
                    TokenRequest (token_url cfg) (wp_user cfg) (wp_pass cfg) # rest
                 \<and> (rest \<noteq> [] \<longrightarrow> \<not> raise_for_status st \<and> body \<noteq> None))"
proof -
  have fail: "post_to_wordpress cfg rem files markdown file_path =
      (Inl (HTTPError st), [TokenRequest (token_url cfg) (wp_user cfg) (wp_pass cfg)])"
    if "raise_for_status st"
  proof -
    have "fst (get_jwt_token cfg rem []) = Inl (HTTPError st)"
      using assms that by (simp add: get_jwt_token_def)
    then show ?thesis by (rule post_to_wordpress_token_failure)
  qed
  have nobody: "post_to_wordpress cfg rem files markdown file_path =
      (Inl (KeyError ''token''), [TokenRequest (token_url cfg) (wp_user cfg) (wp_pass cfg)])"
    if "\<not> raise_for_status st" and "body = None"
  proof -
    have "fst (get_jwt_token cfg rem []) = Inl (KeyError ''token'')"
      using assms that by (simp add: get_jwt_token_def)
    then show ?thesis by (rule post_to_wordpress_token_failure)
  qed
  obtain rest where rest: "snd (post_to_wordpress cfg rem files markdown file_path) =
      TokenRequest (token_url cfg) (wp_user cfg) (wp_pass cfg) # rest"
    using post_to_wordpress_first_request by blast
  have "\<not> raise_for_status st \<and> body \<noteq> None" if "rest \<noteq> []"
  proof (rule ccontr)
    assume "\<not> (\<not> raise_for_status st \<and> body \<noteq> None)"
    then have "snd (post_to_wordpress cfg rem files markdown file_path) =
        [TokenRequest (token_url cfg) (wp_user cfg) (wp_pass cfg)]"
      using fail nobody by (cases "raise_for_status st") auto
    with rest that show False by simp
  qed
  with rest fail show ?thesis by blast
qed

theorem authentication_failure_aborts_witness:
  "post_to_wordpress
     \<lparr>wp_url = ''https://example.com'', wp_user = ''author'', wp_pass = ''secret''\<rparr>
     \<lparr>token_response = (401, None),
      terms_response = (\<lambda>url. (200, [(''News'', 1)])),
      post_response = (201, Some ''https://example.com/?p=1'')\<rparr>
     [''post.md'' \<mapsto> ''# Hello\<newline>'']
     (\<lambda>s. s)
     ''post.md''
   = (Inl (HTTPError 401),
      [TokenRequest ''https://example.com/wp-json/jwt-auth/v1/token'' ''author'' ''secret''])"
proof -
  have r: "raise_for_status 401" by (simp add: raise_for_status_def)
  have t: "token_response
     \<lparr>token_response = (401, None),
      terms_response = (\<lambda>url. (200, [(''News'', 1)])),
      post_response = (201, Some ''https://example.com/?p=1'')\<rparr> = (401, None)"
    by simp
  from authentication_failure_aborts [OF t] r show ?thesis
    by (simp add: token_url_def)
qed

section \<open>Names, ampersands and identifiers\<close>

lemma py_replace_Nil: "py_replace old new [] = []"
  by (simp add: py_replace_def)

lemma py_replace_Cons:
  "py_replace old new (c # cs) = (if c = old then new else [c]) @ py_replace old new cs"
  by (simp add: py_replace_def)

lemma py_replace_append:
  "py_replace old new (xs @ ys) = py_replace old new xs @ py_replace old new ys"
  by (simp add: py_replace_def)

lemma py_replace_length:
  "length s \<le> length (py_replace CHR ''&'' ''&amp;'' s)"
  by (induction s) (simp_all add: py_replace_Nil py_replace_Cons)

lemma py_replace_longer:
  "CHR ''&'' \<in> set s \<Longrightarrow> length s < length (py_replace CHR ''&'' ''&amp;'' s)"
proof (induction s)
  case Nil
  then show ?case by simp
next
  case (Cons c s)
  show ?case
  proof (cases "c = CHR ''&''")
    case True
    then show ?thesis using py_replace_length [of s] by (simp add: py_replace_Cons)
  next
    case False
    with Cons show ?thesis by (simp add: py_replace_Cons)
  qed
qed

lemma tips_categories: "categories_of ''Categories: tips & tricks'' = [''tips & tricks'']"
  by code_simp

lemma tips_escaped_categories:
  "categories_of ''Categories: tips &amp; tricks'' = [''tips &amp; tricks'']"
  by code_simp

lemma tips_modified: "modified [''tips & tricks''] = [''tips &amp; tricks'']"
  by (simp add: modified_def py_replace_def)

lemma tips_escaped_modified: "modified [''tips &amp; tricks''] = [''tips &amp;amp; tricks'']"
  by (simp add: modified_def py_replace_def)

lemma escaped_tag_names: "tags_of ''Tags: Q&amp;A'' = [''q&amp;a'']"
  by code_simp

lemma repeated_categories: "categories_of ''Categories: b, a, b, c'' = [''b'', ''a'', ''b'', ''c'']"
  by code_simp

text \<open>
  Claim C4. In a run whose requests all succeed, whatever the document and the term
  lists that were fetched, the run ends with the link (the resolution of the names
  raises nothing), every identifier that is posted is a value of the fetched map, and
  the identifier lists are those of the names that are keys of the map: a name that is
  no key gives no identifier.
\<close>

theorem unmatched_names_are_omitted:
  assumes "token_response rem = (s0, Some token)" and "\<not> raise_for_status s0"
    and "terms_response rem (terms_url cfg ''categories'') = (s1, category_items)"
    and "\<not> raise_for_status s1"
    and "terms_response rem (terms_url cfg ''tags'') = (s2, tag_items)"
    and "\<not> raise_for_status s2"
    and "files file_path = Some doc"
    and "post_response rem = (s3, Some link)" and "\<not> raise_for_status s3"
  shows "\<exists>data.
      post_to_wordpress cfg rem files markdown file_path =
        (Inr link,
         [TokenRequest (token_url cfg) (wp_user cfg) (wp_pass cfg),
          TermsRequest (terms_url cfg ''categories''),
          TermsRequest (terms_url cfg ''tags''),
          PostRequest (posts_url cfg) (''Bearer '' @ token) data])
      \<and> set (data_categories data) \<subseteq> ran (term_map category_items)
      \<and> set (data_tags data) \<subseteq> ran (term_map tag_items)
      \<and> data_categories data =
          ids_of (term_map category_items)
            (filter (\<lambda>c. term_map category_items c \<noteq> None) (modified (categories_of doc)))
      \<and> data_tags data =
          ids_of (term_map tag_items)
            (filter (\<lambda>t. term_map tag_items t \<noteq> None) (modified (tags_of doc)))
      \<and> (\<forall>m c. m c = None \<longrightarrow> ids_of m [c] = [])"
proof -
  let ?data = "post_data_of (term_map category_items) (term_map tag_items)
                 (parse_markdown markdown doc)"
  have "post_to_wordpress cfg rem files markdown file_path =
        (Inr link,
         [TokenRequest (token_url cfg) (wp_user cfg) (wp_pass cfg),
          TermsRequest (terms_url cfg ''categories''),
          TermsRequest (terms_url cfg ''tags''),
          PostRequest (posts_url cfg) (''Bearer '' @ token) ?data])"
    using assms by (rule post_to_wordpress_success)
  moreover have "set (data_categories ?data) \<subseteq> ran (term_map category_items)"
    by (simp add: post_data_of_parse ids_of_ran)
  moreover have "set (data_tags ?data) \<subseteq> ran (term_map tag_items)"
    by (simp add: post_data_of_parse ids_of_ran)
  moreover have "data_categories ?data =
          ids_of (term_map category_items)
            (filter (\<lambda>c. term_map category_items c \<noteq> None) (modified (categories_of doc)))"
    using ids_of_present [of "term_map category_items"] by (simp add: post_data_of_parse)
  moreover have "data_tags ?data =
          ids_of (term_map tag_items)
            (filter (\<lambda>t. term_map tag_items t \<noteq> None) (modified (tags_of doc)))"
    using ids_of_present [of "term_map tag_items"] by (simp add: post_data_of_parse)
  moreover have "\<forall>m c. m c = None \<longrightarrow> ids_of m [c] = []"
    by (simp add: ids_of_def)
  ultimately show ?thesis by blast
qed



theorem unmatched_names_are_omitted_witness:
  "\<exists>data.
     post_to_wordpress
       \<lparr>wp_url = ''https://example.com'', wp_user = ''author'', wp_pass = ''secret''\<rparr>
       \<lparr>token_response = (200, Some ''abc''),
        terms_response =
          (\<lambda>url. if url = ''https://example.com/wp-json/wp/v2/categories?per_page=100''
                 then (200, [(''News'', 1)]) else (200, [(''Go'', 2)])),
        post_response = (201, Some ''https://example.com/?p=1'')\<rparr>
       [''post.md'' \<mapsto> ''# Hello\<newline>Categories: news, misc\<newline>Tags: go, rust\<newline>Body text\<newline>'']
       (\<lambda>s. s)
       ''post.md''
     = (Inr ''https://example.com/?p=1'',
        [TokenRequest ''https://example.com/wp-json/jwt-auth/v1/token'' ''author'' ''secret'',
         TermsRequest ''https://example.com/wp-json/wp/v2/categories?per_page=100'',
         TermsRequest ''https://example.com/wp-json/wp/v2/tags?per_page=100'',
         PostRequest ''https://example.com/wp-json/wp/v2/posts'' ''Bearer abc'' data])
     \<and> data_categories data = [1] \<and> data_tags data = [2]"
proof -
  let ?cfg = "\<lparr>wp_url = ''https://example.com'', wp_user = ''author'', wp_pass = ''secret''\<rparr>"
  let ?rem = "\<lparr>token_response = (200, Some ''abc''),
        terms_response =
          (\<lambda>url. if url = ''https://example.com/wp-json/wp/v2/categories?per_page=100''
                 then (200, [(''News'', 1)]) else (200, [(''Go'', 2)])),
        post_response = (201, Some ''https://example.com/?p=1'')\<rparr>"
  let ?doc = "''# Hello\<newline>Categories: news, misc\<newline>Tags: go, rust\<newline>Body text\<newline>''"
  have h1: "token_response ?rem = (200, Some ''abc'')" by simp
  have h2: "\<not> raise_for_status 200" by (simp add: raise_for_status_def)
  have h3: "terms_response ?rem (terms_url ?cfg ''categories'') = (200, [(''News'', 1)])"
    by (simp add: terms_url_def)
  have h4: "terms_response ?rem (terms_url ?cfg ''tags'') = (200, [(''Go'', 2)])"
    by (simp add: terms_url_def)
  have h5: "[''post.md'' \<mapsto> ?doc] ''post.md'' = Some ?doc" by simp
  have h6: "post_response ?rem = (201, Some ''https://example.com/?p=1'')" by simp
  have h7: "\<not> raise_for_status 201" by (simp add: raise_for_status_def)
  have c: "ids_of (term_map [(''News'', 1)])
             (filter (\<lambda>c. term_map [(''News'', 1)] c \<noteq> None) (modified (categories_of ?doc))) = [1]"
    by code_simp
  have t: "ids_of (term_map [(''Go'', 2)])
             (filter (\<lambda>c. term_map [(''Go'', 2)] c \<noteq> None) (modified (tags_of ?doc))) = [2]"
    by code_simp
  from unmatched_names_are_omitted
    [where files = "[''post.md'' \<mapsto> ?doc]" and file_path = "''post.md''"
       and markdown = "\<lambda>s. s", OF h1 h2 h3 h2 h4 h2 h5 h6 h7]
  obtain data where
    run: "post_to_wordpress ?cfg ?rem [''post.md'' \<mapsto> ?doc] (\<lambda>s. s) ''post.md'' =
        (Inr ''https://example.com/?p=1'',
         [TokenRequest (token_url ?cfg) (wp_user ?cfg) (wp_pass ?cfg),
          TermsRequest (terms_url ?cfg ''categories''),
          TermsRequest (terms_url ?cfg ''tags''),
          PostRequest (posts_url ?cfg) (''Bearer '' @ ''abc'') data])"
    and dc: "data_categories data =
          ids_of (term_map [(''News'', 1)])
            (filter (\<lambda>c. term_map [(''News'', 1)] c \<noteq> None) (modified (categories_of ?doc)))"
    and dt: "data_tags data =
          ids_of (term_map [(''Go'', 2)])
            (filter (\<lambda>c. term_map [(''Go'', 2)] c \<noteq> None) (modified (tags_of ?doc)))"
    by blast
  from run have "post_to_wordpress ?cfg ?rem [''post.md'' \<mapsto> ?doc] (\<lambda>s. s) ''post.md'' =
        (Inr ''https://example.com/?p=1'',
         [TokenRequest ''https://example.com/wp-json/jwt-auth/v1/token'' ''author'' ''secret'',
          TermsRequest ''https://example.com/wp-json/wp/v2/categories?per_page=100'',
          TermsRequest ''https://example.com/wp-json/wp/v2/tags?per_page=100'',
          PostRequest ''https://example.com/wp-json/wp/v2/posts'' ''Bearer abc'' data])"
    by (simp add: token_url_def terms_url_def posts_url_def)
  moreover have "data_categories data = [1]" using dc c by simp
  moreover have "data_tags data = [2]" using dt t by simp
  ultimately show ?thesis by blast
qed

text \<open>
  Claim C6. The names that are looked up are the parsed names with \<open>&\<close> replaced by
  \<open>&amp;\<close>: the replacement works character by character, turning each \<open>&\<close> into
  \<open>&amp;\<close> and keeping every other character. The category name \<open>tips & tricks\<close>
  becomes \<open>tips &amp; tricks\<close>, and it gets the identifier that the map holds under
  that key.
\<close>

theorem ampersand_escaped_before_lookup:
  "data_categories (post_data_of cm tm (parse_markdown markdown doc)) =
     ids_of cm (map (py_replace CHR ''&'' ''&amp;'') (categories_of doc))
   \<and> data_tags (post_data_of cm tm (parse_markdown markdown doc)) =
     ids_of tm (map (py_replace CHR ''&'' ''&amp;'') (tags_of doc))
   \<and> py_replace CHR ''&'' ''&amp;'' (xs @ ys) =
     py_replace CHR ''&'' ''&amp;'' xs @ py_replace CHR ''&'' ''&amp;'' ys
   \<and> py_replace CHR ''&'' ''&amp;'' [c] = (if c = CHR ''&'' then ''&amp;'' else [c])
   \<and> py_replace CHR ''&'' ''&amp;'' ''tips & tricks'' = ''tips &amp; tricks''
   \<and> (cm ''tips &amp; tricks'' = Some i \<longrightarrow>
        data_categories
          (post_data_of cm tm (parse_markdown markdown ''Categories: tips & tricks'')) = [i])"
proof -
  have "cm ''tips &amp; tricks'' = Some i \<Longrightarrow>
        data_categories
          (post_data_of cm tm (parse_markdown markdown ''Categories: tips & tricks'')) = [i]"
    by (simp add: post_data_of_parse tips_categories tips_modified ids_of_Cons ids_of_Nil)
  moreover have "py_replace CHR ''&'' ''&amp;'' ''tips & tricks'' = ''tips &amp; tricks''"
    by (simp add: py_replace_def)
  moreover have "py_replace CHR ''&'' ''&amp;'' [c] = (if c = CHR ''&'' then ''&amp;'' else [c])"
    by (simp add: py_replace_def)
  ultimately show ?thesis
    by (simp add: post_data_of_parse modified_def py_replace_append)
qed

theorem ampersand_escaped_before_lookup_witness:
  "data_categories
     (post_data_of [''tips &amp; tricks'' \<mapsto> 7] Map.empty
        (parse_markdown (\<lambda>s. s) ''Categories: tips & tricks'')) = [7]"
proof -
  have "[''tips &amp; tricks'' \<mapsto> 7::int] ''tips &amp; tricks'' = Some 7" by simp
  with ampersand_escaped_before_lookup
    [of "[''tips &amp; tricks'' \<mapsto> 7]" Map.empty "\<lambda>s. s" "[]" "[]" "[]" "CHR ''&''" 7]
  show ?thesis by blast
qed

text \<open>
  Claim C9. The replacement is applied to every \<open>&\<close>, also to the one of an entity
  that is already written out: \<open>&amp;\<close> becomes \<open>&amp;amp;\<close>, inside any name. Every
  name is looked up under its escaped form and gets the identifier stored under that
  form: the document name \<open>tips &amp; tricks\<close> is looked up as
  \<open>tips &amp;amp; tricks\<close>. So a name that contains \<open>&\<close> is never looked up under
  itself: against a map whose only term is stored under that very name it gives no
  identifier, as the document name \<open>tips &amp; tricks\<close> does against the remote term
  \<open>tips &amp; tricks\<close>.
\<close>

theorem entity_form_escaped_again:
  "py_replace CHR ''&'' ''&amp;'' ''&amp;'' = ''&amp;amp;''
   \<and> py_replace CHR ''&'' ''&amp;'' (a @ ''&amp;'' @ b) =
     py_replace CHR ''&'' ''&amp;'' a @ ''&amp;amp;'' @ py_replace CHR ''&'' ''&amp;'' b
   \<and> modified (xs @ name # ys) =
     modified xs @ py_replace CHR ''&'' ''&amp;'' name # modified ys
   \<and> modified [a @ ''&amp;'' @ b] =
     [py_replace CHR ''&'' ''&amp;'' a @ ''&amp;amp;'' @ py_replace CHR ''&'' ''&amp;'' b]
   \<and> ids_of [py_replace CHR ''&'' ''&amp;'' name \<mapsto> i] (modified [name]) = [i]
   \<and> (CHR ''&'' \<in> set name \<longrightarrow>
        py_replace CHR ''&'' ''&amp;'' name \<noteq> name
        \<and> ids_of [name \<mapsto> i] (modified [name]) = [])
   \<and> data_categories
       (post_data_of [''tips &amp; tricks'' \<mapsto> i] tm
          (parse_markdown markdown ''Categories: tips &amp; tricks'')) = []
   \<and> data_categories
       (post_data_of [''tips &amp;amp; tricks'' \<mapsto> i] tm
          (parse_markdown markdown ''Categories: tips &amp; tricks'')) = [i]
   \<and> data_tags
       (post_data_of cm [''q&amp;amp;a'' \<mapsto> i]
          (parse_markdown markdown ''Tags: Q&amp;A'')) = [i]"
proof -
  have 1: "py_replace CHR ''&'' ''&amp;'' ''&amp;'' = ''&amp;amp;''"
    by (simp add: py_replace_def)
  have 2: "py_replace CHR ''&'' ''&amp;'' (a @ ''&amp;'' @ b) =
     py_replace CHR ''&'' ''&amp;'' a @ ''&amp;amp;'' @ py_replace CHR ''&'' ''&amp;'' b"
    unfolding py_replace_append 1 ..
  have 3: "py_replace CHR ''&'' ''&amp;'' name \<noteq> name
        \<and> ids_of [name \<mapsto> i] (modified [name]) = []" if "CHR ''&'' \<in> set name"
  proof -
    have "length name < length (py_replace CHR ''&'' ''&amp;'' name)"
      using that by (rule py_replace_longer)
    then have "py_replace CHR ''&'' ''&amp;'' name \<noteq> name" by auto
    then show ?thesis by (simp add: modified_def ids_of_Cons ids_of_Nil)
  qed
  have 4: "data_categories
       (post_data_of [''tips &amp; tricks'' \<mapsto> i] tm
          (parse_markdown markdown ''Categories: tips &amp; tricks'')) = []"
    by (simp add: post_data_of_parse tips_escaped_categories tips_escaped_modified
        ids_of_Cons ids_of_Nil)
  have 5: "modified (xs @ name # ys) =
     modified xs @ py_replace CHR ''&'' ''&amp;'' name # modified ys"
    by (simp add: modified_def)
  have 6: "modified [a @ ''&amp;'' @ b] =
     [py_replace CHR ''&'' ''&amp;'' a @ ''&amp;amp;'' @ py_replace CHR ''&'' ''&amp;'' b]"
    using 2 by (simp add: modified_def)
  have 7: "ids_of [py_replace CHR ''&'' ''&amp;'' name \<mapsto> i] (modified [name]) = [i]"
    by (simp add: modified_def ids_of_Cons ids_of_Nil)
  have 8: "data_categories
       (post_data_of [''tips &amp;amp; tricks'' \<mapsto> i] tm
          (parse_markdown markdown ''Categories: tips &amp; tricks'')) = [i]"
    by (simp add: post_data_of_parse tips_escaped_categories tips_escaped_modified
        ids_of_Cons ids_of_Nil)
  have 9: "data_tags
       (post_data_of cm [''q&amp;amp;a'' \<mapsto> i]
          (parse_markdown markdown ''Tags: Q&amp;A'')) = [i]"
    by (simp add: post_data_of_parse escaped_tag_names modified_def py_replace_def
        ids_of_Cons ids_of_Nil)
  from 1 2 3 4 5 6 7 8 9 show ?thesis by blast
qed

theorem entity_form_escaped_again_witness:
  "py_replace CHR ''&'' ''&amp;'' ''tips &amp; tricks'' \<noteq> ''tips &amp; tricks''
   \<and> ids_of [''tips &amp; tricks'' \<mapsto> 5] (modified [''tips &amp; tricks'']) = []"
proof -
  have "CHR ''&'' \<in> set ''tips &amp; tricks''" by simp
  with entity_form_escaped_again
    [where name = "''tips &amp; tricks''" and i = 5 and a = "[]" and b = "[]"
       and xs = "[]" and ys = "[]" and tm = Map.empty and cm = Map.empty
       and markdown = "\<lambda>s. s"]
  show ?thesis by blast
qed

text \<open>
  Claim C10. The identifiers follow the names: the list for a sequence of names is the
  list for its first part followed by the list for its second part, one name gives
  its identifier or nothing, and no identifier is removed as a duplicate: a name that
  stands \<open>n\<close> times gives its identifier \<open>n\<close> times, and an identifier occurs as often as
  there are names that the map sends to it. The line \<open>Categories: b, a, b, c\<close> with the
  map \<open>{a: 1, b: 2}\<close> gives \<open>[2, 1, 2]\<close>.
\<close>

theorem identifiers_keep_order_and_multiplicity:
  "data_categories (post_data_of cm tm (parse_markdown markdown doc)) =
     ids_of cm (modified (categories_of doc))
   \<and> data_tags (post_data_of cm tm (parse_markdown markdown doc)) =
     ids_of tm (modified (tags_of doc))
   \<and> ids_of m (xs @ ys) = ids_of m xs @ ids_of m ys
   \<and> ids_of m [c] = (case m c of None \<Rightarrow> [] | Some j \<Rightarrow> [j])
   \<and> (m c = Some i \<longrightarrow> ids_of m (replicate n c) = replicate n i)
   \<and> count_list (ids_of m names) i = length (filter (\<lambda>c. m c = Some i) names)
   \<and> data_categories
       (post_data_of [''a'' \<mapsto> 1, ''b'' \<mapsto> 2] tm
          (parse_markdown markdown ''Categories: b, a, b, c'')) = [2, 1, 2]"
proof -
  have "data_categories
       (post_data_of [''a'' \<mapsto> 1, ''b'' \<mapsto> 2] tm
          (parse_markdown markdown ''Categories: b, a, b, c'')) = [2, 1, 2]"
    by (simp add: post_data_of_parse repeated_categories modified_def py_replace_def
        ids_of_Cons ids_of_Nil)
  moreover have "ids_of m [c] = (case m c of None \<Rightarrow> [] | Some j \<Rightarrow> [j])"
    by (simp add: ids_of_Cons ids_of_Nil split: option.splits)
  ultimately show ?thesis
    by (simp add: post_data_of_parse ids_of_append ids_of_replicate ids_of_count)
qed

theorem identifiers_keep_order_and_multiplicity_witness:
  "ids_of [''a'' \<mapsto> 1] (replicate 3 ''a'') = replicate 3 1"
proof -
  have "[''a'' \<mapsto> 1::int] ''a'' = Some 1" by simp
  with identifiers_keep_order_and_multiplicity
    [of Map.empty Map.empty "\<lambda>s. s" "[]" "[''a'' \<mapsto> 1]" "[]" "[]" "''a''" 1 3 "[]"]
  show ?thesis by blast
qed

section \<open>The body that is rendered\<close>

text \<open>The renderer is applied to the body that the scan leaves. For a document that is
  one fenced code block, that body is the block, unchanged, with a newline after its
  last line.\<close>

lemma fenced_block_body:
  "body_of ''```\<newline>code\<newline>```'' = ''```\<newline>code\<newline>```\<newline>''"
  by code_simp

end
